theory Spec2Isabelle
  imports Complex_Main
begin

section \<open>Session store and transport\<close>

text \<open>
  The embedding follows \<^verbatim>\<open>context/AuthContext.tsx\<close> and \<^verbatim>\<open>lib/api.ts\<close>.
  React state, the axios default header and the \<^verbatim>\<open>localStorage\<close> item are fields of
  one record that every operation takes and returns. A value of type
  \<^verbatim>\<open>string | null\<close> is a \<open>string option\<close>.
\<close>

record AuthState =
  accessToken :: "string option"
  refreshToken :: "string option"
  userEmail :: "string option"

text \<open>
  The text kept under the key \<^verbatim>\<open>draftly.auth\<close>, classified by what the initializer
  of \<^verbatim>\<open>AuthProvider\<close> does with it: \<open>Blank\<close> is the empty string (falsy, so the
  \<^verbatim>\<open>if (stored)\<close> branch is skipped), \<open>Corrupt\<close> is a text on which
  \<^verbatim>\<open>JSON.parse\<close> or the read of \<^verbatim>\<open>parsed.accessToken\<close> throws, and \<open>Json a\<close> is
  a text that parses to an object whose three fields read as \<open>a\<close>. No storage item
  at all is \<open>None\<close>. \<^verbatim>\<open>JSON.stringify(state)\<close> writes \<open>Json state\<close>.
\<close>

datatype stored = Blank | Corrupt | Json AuthState

text \<open>What the rejection handler of the response interceptor reads from an axios error:
  \<^verbatim>\<open>error.response?.status\<close> and \<^verbatim>\<open>err?.response?.data?.detail\<close>.\<close>

record api_error =
  status :: "nat option"
  detail :: "string option"

datatype export_format = Docx | Pptx | Txt

text \<open>The requests the modelled operations issue. All but the last go through the axios
  instance \<^verbatim>\<open>api\<close>; \<open>Fetch_export\<close> is the direct \<^verbatim>\<open>fetch\<close> call of the export, with the
  authorization header it copied.\<close>

datatype request =
    Post_login string string
  | Post_register string string
  | Get_projects nat
  | Post_generate_project string int bool "string option"
  | Get_sections string nat
  | Put_section string string string string
  | Post_refine string string string string bool rat nat
  | Fetch_export string export_format "string option"

text \<open>\<open>intercepting\<close> tells whether the response interceptor is registered on \<^verbatim>\<open>api\<close>:
  \<^verbatim>\<open>AuthProvider\<close> registers it in an effect, not when the instance is created.\<close>

record session =
  authState :: AuthState
  authHeader :: "string option"
  storage :: "stored option"
  sent :: "request list"
  intercepting :: bool

definition nullAuth :: AuthState where
  "nullAuth = \<lparr>accessToken = None, refreshToken = None, userEmail = None\<rparr>"

text \<open>JavaScript truthiness of a \<^verbatim>\<open>string | null | undefined\<close>: the empty string is falsy.\<close>

definition truthy :: "string option \<Rightarrow> bool" where
  "truthy v = (case v of None \<Rightarrow> False | Some t \<Rightarrow> t \<noteq> [])"

definition setAuthHeader :: "string option \<Rightarrow> 'a session_scheme \<Rightarrow> 'a session_scheme" where
  "setAuthHeader token s =
     (case token of
        None \<Rightarrow> s\<lparr>authHeader := None\<rparr>
      | Some t \<Rightarrow>
          if t = [] then s\<lparr>authHeader := None\<rparr>
          else s\<lparr>authHeader := Some (''Bearer '' @ t)\<rparr>)"

text \<open>The lazy initializer of \<^verbatim>\<open>useState\<close>, run on the storage found at start, with the
  freshly created axios instance (no default authorization header, no interceptor,
  nothing sent).\<close>

definition initAuth :: "stored option \<Rightarrow> session" where
  "initAuth st =
     (let fresh = \<lparr>authState = nullAuth, authHeader = None, storage = st, sent = [],
                   intercepting = False\<rparr> in
      case st of
        None \<Rightarrow> fresh
      | Some Blank \<Rightarrow> fresh
      | Some Corrupt \<Rightarrow> fresh\<lparr>storage := None\<rparr>
      | Some (Json parsed) \<Rightarrow> (setAuthHeader (accessToken parsed) fresh)\<lparr>authState := parsed\<rparr>)"

text \<open>The effect \<^verbatim>\<open>useEffect(() => setAuthHeader(authState.accessToken), [authState.accessToken])\<close>,
  which React runs after a render in which the access token changed.\<close>

definition authHeaderEffect :: "'a session_scheme \<Rightarrow> 'a session_scheme" where
  "authHeaderEffect s = setAuthHeader (accessToken (authState s)) s"

text \<open>The same effect after a render caused by a state change: its dependency is
  \<^verbatim>\<open>authState.accessToken\<close>, so it runs only if the token differs from the one before.\<close>

definition accessTokenEffect :: "AuthState \<Rightarrow> 'a session_scheme \<Rightarrow> 'a session_scheme" where
  "accessTokenEffect before s =
     (if accessToken (authState s) = accessToken before then s else authHeaderEffect s)"

text \<open>The effect that registers the response interceptor, and the effects of \<^verbatim>\<open>AuthProvider\<close>
  on mount in the order of their declaration. React runs the effects of a component after
  those of the components below it.\<close>

definition registerInterceptor :: "'a session_scheme \<Rightarrow> 'a session_scheme" where
  "registerInterceptor s = s\<lparr>intercepting := True\<rparr>"

definition mountAuthProvider :: "'a session_scheme \<Rightarrow> 'a session_scheme" where
  "mountAuthProvider s = registerInterceptor (authHeaderEffect s)"

text \<open>The response interceptor: a fulfilled response passes through; a rejection with status
  401 resets the state and removes the storage item; every rejection is rejected again.\<close>

definition responseInterceptor ::
  "api_error + 'r \<Rightarrow> 'a session_scheme \<Rightarrow> (api_error + 'r) \<times> 'a session_scheme" where
  "responseInterceptor outcome s =
     (case outcome of
        Inr response \<Rightarrow> (Inr response, s)
      | Inl err \<Rightarrow>
          (Inl err,
           if status err = Some 401 then s\<lparr>authState := nullAuth, storage := None\<rparr> else s))"

text \<open>A call through \<^verbatim>\<open>api\<close> (\<^verbatim>\<open>api.get\<close>, \<^verbatim>\<open>api.post\<close>, \<^verbatim>\<open>api.put\<close>): the request is
  sent, and what the server answered (axios rejects every status outside 2xx) reaches the
  caller. Axios takes the interceptors registered at the moment the request is issued, so
  the answer goes through the response interceptor only if it was registered then. The
  state returned is the one after the render that a change of \<^verbatim>\<open>authState\<close> causes.\<close>

definition api ::
  "request \<Rightarrow> api_error + 'r \<Rightarrow> 'a session_scheme \<Rightarrow> (api_error + 'r) \<times> 'a session_scheme" where
  "api req outcome s =
     (let s1 = s\<lparr>sent := sent s @ [req]\<rparr> in
      if intercepting s then
        (case responseInterceptor outcome s1 of
           (result, s2) \<Rightarrow> (result, accessTokenEffect (authState s) s2))
      else (outcome, s1))"

definition persist :: "AuthState \<Rightarrow> 'a session_scheme \<Rightarrow> 'a session_scheme" where
  "persist state s =
     (setAuthHeader (accessToken state) (s\<lparr>authState := state\<rparr>))\<lparr>storage := Some (Json state)\<rparr>"

text \<open>The body of a successful answer of \<^verbatim>\<open>/auth/login\<close>, as \<^verbatim>\<open>login\<close> reads it: the
  body is untyped JSON, and a field it lacks reads as \<open>None\<close>.\<close>

record login_data =
  access_token :: "string option"
  refresh_token :: "string option"

definition login ::
  "string \<Rightarrow> string \<Rightarrow> api_error + login_data \<Rightarrow> 'a session_scheme
     \<Rightarrow> (api_error + unit) \<times> 'a session_scheme" where
  "login email password outcome s =
     (case api (Post_login email password) outcome s of
        (Inl err, s') \<Rightarrow> (Inl err, s')
      | (Inr data, s') \<Rightarrow>
          (Inr (),
           persist \<lparr>accessToken = access_token data,
                    refreshToken = refresh_token data,
                    userEmail = Some email\<rparr> s'))"

definition register ::
  "string \<Rightarrow> string \<Rightarrow> api_error + unit \<Rightarrow> api_error + login_data \<Rightarrow> 'a session_scheme
     \<Rightarrow> (api_error + unit) \<times> 'a session_scheme" where
  "register email password registered outcome s =
     (case api (Post_register email password) registered s of
        (Inl err, s') \<Rightarrow> (Inl err, s')
      | (Inr _, s') \<Rightarrow> login email password outcome s')"

definition logout :: "'a session_scheme \<Rightarrow> 'a session_scheme" where
  "logout s = persist nullAuth s"

text \<open>The pairing of access token and identity: both present or both absent.\<close>

definition paired :: "AuthState \<Rightarrow> bool" where
  "paired a = ((accessToken a = None) = (userEmail a = None))"

definition storedPaired :: "stored option \<Rightarrow> bool" where
  "storedPaired st = (case st of Some (Json a) \<Rightarrow> paired a | _ \<Rightarrow> True)"

section \<open>Project list page\<close>

text \<open>
  \<^verbatim>\<open>pages/ProjectsPage.tsx\<close>: the state that \<^verbatim>\<open>fetchProjects\<close> and
  \<^verbatim>\<open>handleGenerate\<close> read and write (the creation form and the search box are left out).
  The page state extends the session record, since its requests go through \<^verbatim>\<open>api\<close>.
\<close>

datatype DocumentType = Doc_docx | Doc_pptx

record Project =
  proj_id :: string
  title :: string
  doc_type :: DocumentType
  topic_prompt :: "string option"
  user_id :: string
  created_at :: string
  updated_at :: "string option"
  section_count :: "int option"

record generator_form =
  projectId :: string
  num_sections :: int
  include_outline :: bool
  outline_format :: string

record projects_page = session +
  projects :: "Project list"
  loading :: bool
  error :: "string option"
  generator :: generator_form
  generating :: bool

text \<open>\<^verbatim>\<open>err?.response?.data?.detail ?? fallback\<close>\<close>

definition detailOr :: "api_error \<Rightarrow> string \<Rightarrow> string" where
  "detailOr err fallback = (case detail err of Some d \<Rightarrow> d | None \<Rightarrow> fallback)"

definition fetchProjects ::
  "api_error + Project list option \<Rightarrow> projects_page \<Rightarrow> projects_page" where
  "fetchProjects outcome w =
     (let w1 = w\<lparr>loading := True, error := None\<rparr> in
      (case api (Get_projects 50) outcome w1 of
         (Inr items, w2) \<Rightarrow> w2\<lparr>projects := (case items of Some ps \<Rightarrow> ps | None \<Rightarrow> [])\<rparr>
       | (Inl err, w2) \<Rightarrow> w2\<lparr>error := Some (detailOr err ''Unable to load projects'')\<rparr>)
      \<lparr>loading := False\<rparr>)"

text \<open>The submit handler of the generation form. The first outcome is the server's answer
  to the generation request, the second its answer to the reload of the project list. The
  number input of the form declares \<^verbatim>\<open>min={1} max={20}\<close>; the handler reads
  \<^verbatim>\<open>generator.num_sections\<close> as it is.\<close>

definition handleGenerate ::
  "api_error + unit \<Rightarrow> api_error + Project list option \<Rightarrow> projects_page \<Rightarrow> projects_page" where
  "handleGenerate generated reloaded w =
     (let g = generator w in
      if projectId g = [] then w\<lparr>error := Some ''Select a project first''\<rparr>
      else
        (let w1 = w\<lparr>generating := True, error := None\<rparr> in
         (case api (Post_generate_project (projectId g) (num_sections g) (include_outline g)
                      (if outline_format g = [] then None else Some (outline_format g)))
                   generated w1 of
            (Inr _, w2) \<Rightarrow> fetchProjects reloaded w2
          | (Inl err, w2) \<Rightarrow> w2\<lparr>error := Some (detailOr err ''Unable to generate content'')\<rparr>)
         \<lparr>generating := False\<rparr>))"



section \<open>Project detail page\<close>

text \<open>
  \<^verbatim>\<open>pages/ProjectDetailPage.tsx\<close>: section list, Local Edit Buffer
  (\<^verbatim>\<open>selectedSection\<close>), save, refine and export. The files the export saves are
  recorded in \<open>effects\<close>.
\<close>

record Section =
  sec_id :: string
  project_id :: string
  title :: string
  content :: string
  idx :: int
  initial_generated :: bool
  revision_count :: int
  comment_count :: int
  created_at :: string
  updated_at :: "string option"

datatype effect = Create_object_url string | Download string | Revoke_object_url

record detail_page = session +
  projectId :: "string option"
  project :: "Project option"
  sections :: "Section list"
  loading :: bool
  error :: "string option"
  savingSection :: bool
  selectedSection :: "Section option"
  refinePrompt :: string
  llmBusy :: bool
  exporting :: bool
  exportFormat :: export_format
  effects :: "effect list"

text \<open>The updater that the effect on \<^verbatim>\<open>[sections]\<close> passes to \<^verbatim>\<open>setSelectedSection\<close>,
  together with its guard for the empty list.\<close>

definition reconcileSelection :: "Section list \<Rightarrow> Section option \<Rightarrow> Section option" where
  "reconcileSelection secs prev =
     (if length secs = 0 then None
      else (case prev of
              None \<Rightarrow> Some (secs ! 0)
            | Some p \<Rightarrow>
                (case find (\<lambda>section. sec_id section = sec_id p) secs of
                   Some updated \<Rightarrow> Some updated
                 | None \<Rightarrow> Some (secs ! 0))))"

text \<open>\<^verbatim>\<open>setSections\<close> with a new array, followed by the effect it triggers.\<close>

definition setSections :: "Section list \<Rightarrow> detail_page \<Rightarrow> detail_page" where
  "setSections secs w =
     w\<lparr>sections := secs, selectedSection := reconcileSelection secs (selectedSection w)\<rparr>"

definition fetchSections ::
  "api_error + Section list option \<Rightarrow> detail_page \<Rightarrow> detail_page" where
  "fetchSections outcome w =
     (case projectId w of
        None \<Rightarrow> w
      | Some pid \<Rightarrow>
          if pid = [] then w
          else
            (let w1 = w\<lparr>loading := True, error := None\<rparr> in
             (case api (Get_sections pid 100) outcome w1 of
                (Inr items, w2) \<Rightarrow> setSections (case items of Some xs \<Rightarrow> xs | None \<Rightarrow> []) w2
              | (Inl err, w2) \<Rightarrow> w2\<lparr>error := Some (detailOr err ''Unable to load sections'')\<rparr>)
             \<lparr>loading := False\<rparr>))"

text \<open>In the handlers below the first outcome is the server's answer to the handler's own
  request and \<open>reloaded\<close> its answer to the reload of the section list that follows a
  success.\<close>

definition handleSectionUpdate ::
  "Section \<Rightarrow> api_error + unit \<Rightarrow> api_error + Section list option
     \<Rightarrow> detail_page \<Rightarrow> detail_page" where
  "handleSectionUpdate section updated reloaded w =
     (case projectId w of
        None \<Rightarrow> w
      | Some pid \<Rightarrow>
          if pid = [] then w
          else
            (let w1 = w\<lparr>savingSection := True\<rparr> in
             (case api (Put_section pid (sec_id section) (title section) (content section))
                       updated w1 of
                (Inr _, w2) \<Rightarrow> fetchSections reloaded w2
              | (Inl err, w2) \<Rightarrow> w2\<lparr>error := Some (detailOr err ''Unable to update section'')\<rparr>)
             \<lparr>savingSection := False\<rparr>))"

definition handleRefine ::
  "api_error + Section \<Rightarrow> api_error + Section list option \<Rightarrow> detail_page \<Rightarrow> detail_page" where
  "handleRefine refined reloaded w =
     (case projectId w of
        None \<Rightarrow> w
      | Some pid \<Rightarrow>
          if pid = [] then w
          else
            (case selectedSection w of
               None \<Rightarrow> w
             | Some sel \<Rightarrow>
                 (let w1 = w\<lparr>llmBusy := True, error := None\<rparr> in
                  (case api (Post_refine pid (sec_id sel) (refinePrompt w) (content sel)
                               True (6 / 10) 800) refined w1 of
                     (Inr data, w2) \<Rightarrow>
                       (fetchSections reloaded (w2\<lparr>selectedSection := Some data\<rparr>))
                       \<lparr>refinePrompt := []\<rparr>
                   | (Inl err, w2) \<Rightarrow>
                       w2\<lparr>error := Some (detailOr err ''Unable to refine content'')\<rparr>)
                  \<lparr>llmBusy := False\<rparr>)))"

text \<open>What the \<^verbatim>\<open>fetch\<close> of the export can do: reject (a network failure, with the
  message of the error if it has one), or answer with a status and a body whose read as a
  blob succeeds or rejects.\<close>

datatype blob_outcome = Blob_rejected "string option" | Blob string

datatype fetch_outcome = Fetch_rejected "string option" | Fetch_response nat blob_outcome

text \<open>\<^verbatim>\<open>response.ok\<close>\<close>

definition ok :: "nat \<Rightarrow> bool" where
  "ok st = (200 \<le> st \<and> st \<le> 299)"

fun formatName :: "export_format \<Rightarrow> string" where
  "formatName Docx = ''docx''"
| "formatName Pptx = ''pptx''"
| "formatName Txt = ''txt''"

text \<open>\<^verbatim>\<open>err.message ?? "Unable to download export"\<close>\<close>

definition messageOr :: "string option \<Rightarrow> string" where
  "messageOr m = (case m of Some msg \<Rightarrow> msg | None \<Rightarrow> ''Unable to download export'')"

definition handleExport :: "fetch_outcome \<Rightarrow> detail_page \<Rightarrow> detail_page" where
  "handleExport outcome w =
     (case projectId w of
        None \<Rightarrow> w
      | Some pid \<Rightarrow>
          if pid = [] then w
          else
            (let w1 = w\<lparr>exporting := True, error := None\<rparr>;
                 header = (if truthy (authHeader w1) then authHeader w1 else None);
                 w2 = w1\<lparr>sent := sent w1 @ [Fetch_export pid (exportFormat w1) header]\<rparr>
             in
             (case outcome of
                Fetch_rejected m \<Rightarrow> w2\<lparr>error := Some (messageOr m)\<rparr>
              | Fetch_response st body \<Rightarrow>
                  if \<not> ok st then w2\<lparr>error := Some (messageOr (Some ''Export failed''))\<rparr>
                  else
                    (case body of
                       Blob_rejected m \<Rightarrow> w2\<lparr>error := Some (messageOr m)\<rparr>
                     | Blob blob \<Rightarrow>
                         w2\<lparr>effects := effects w2 @
                              [Create_object_url blob,
                               Download ((case project w2 of
                                            Some p \<Rightarrow> Project.title p
                                          | None \<Rightarrow> ''document'')
                                         @ ''.'' @ formatName (exportFormat w2)),
                               Revoke_object_url]\<rparr>))
             \<lparr>exporting := False\<rparr>))"

subsection \<open>Sample values\<close>

definition sampleAuth :: AuthState where
  "sampleAuth = \<lparr>accessToken = Some ''tok'', refreshToken = Some ''ref'',
                  userEmail = Some ''ann@example.org''\<rparr>"

definition sampleSession :: session where
  "sampleSession = \<lparr>authState = sampleAuth, authHeader = Some ''Bearer tok'',
                     storage = Some (Json sampleAuth), sent = [], intercepting = True\<rparr>"

definition sampleSection :: "string \<Rightarrow> string \<Rightarrow> string \<Rightarrow> Section" where
  "sampleSection i t c =
     \<lparr>sec_id = i, project_id = ''p1'', title = t, content = c, idx = 0,
      initial_generated = False, revision_count = 0, comment_count = 0,
      created_at = ''2024-01-01'', updated_at = None\<rparr>"

definition samplePage :: detail_page where
  "samplePage =
     \<lparr>authState = sampleAuth, authHeader = Some ''Bearer tok'',
      storage = Some (Json sampleAuth), sent = [], intercepting = True,
      projectId = Some ''p1'', project = None,
      sections = [sampleSection ''a'' ''A'' ''old text''],
      loading = False, error = None, savingSection = False,
      selectedSection = Some (sampleSection ''a'' ''A'' ''edited text''),
      refinePrompt = ''shorter'', llmBusy = False, exporting = False,
      exportFormat = Docx, effects = []\<rparr>"


definition sampleLogin :: login_data where
  "sampleLogin = \<lparr>access_token = Some ''tok2'', refresh_token = None\<rparr>"

definition unauthorized :: api_error where
  "unauthorized = \<lparr>status = Some 401, detail = None\<rparr>"

section \<open>Supporting lemmas\<close>

lemma api_Inl:
  "api req (Inl err) s =
     (Inl err, if intercepting s \<and> status err = Some 401
               then s\<lparr>sent := sent s @ [req], authState := nullAuth, storage := None,
                      authHeader := (if accessToken (authState s) = None then authHeader s
                                     else None)\<rparr>
               else s\<lparr>sent := sent s @ [req]\<rparr>)"
  by (simp add: api_def responseInterceptor_def Let_def accessTokenEffect_def
        authHeaderEffect_def setAuthHeader_def nullAuth_def)

lemma api_Inr: "api req (Inr x) s = (Inr x, s\<lparr>sent := sent s @ [req]\<rparr>)"
  by (simp add: api_def responseInterceptor_def Let_def accessTokenEffect_def)

lemma setAuthHeader_fields:
  "authState (setAuthHeader t s) = authState s"
  "storage (setAuthHeader t s) = storage s"
  "sent (setAuthHeader t s) = sent s"
  by (simp_all add: setAuthHeader_def split: option.splits)

lemma paired_nullAuth: "paired nullAuth"
  by (simp add: paired_def nullAuth_def)

lemma login_success:
  "login email password (Inr data) s =
     (Inr (), persist \<lparr>accessToken = access_token data,
                       refreshToken = refresh_token data,
                       userEmail = Some email\<rparr>
                (s\<lparr>sent := sent s @ [Post_login email password]\<rparr>))"
  by (simp add: login_def api_Inr)



lemma sent_fetchSections:
  "projectId w = Some pid \<Longrightarrow> pid \<noteq> [] \<Longrightarrow>
     sent (fetchSections outcome w) = sent w @ [Get_sections pid 100]"
  by (cases outcome) (simp_all add: fetchSections_def Let_def api_Inl api_Inr setSections_def)

lemma fetchSections_selected:
  "projectId w = Some pid \<Longrightarrow> pid \<noteq> [] \<Longrightarrow>
     selectedSection (fetchSections outcome w) =
       (case outcome of
          Inl err \<Rightarrow> selectedSection w
        | Inr items \<Rightarrow>
            reconcileSelection (case items of Some xs \<Rightarrow> xs | None \<Rightarrow> []) (selectedSection w))"
  by (cases outcome) (simp_all add: fetchSections_def Let_def api_Inl api_Inr setSections_def)

lemma handleRefine_success:
  "projectId w = Some pid \<Longrightarrow> pid \<noteq> [] \<Longrightarrow> selectedSection w = Some sel \<Longrightarrow>
     handleRefine (Inr data) reloaded w =
       (fetchSections reloaded
          (w\<lparr>llmBusy := True, error := None,
             sent := sent w @ [Post_refine pid (sec_id sel) (refinePrompt w) (content sel)
                                 True (6 / 10) 800],
             selectedSection := Some data\<rparr>))
       \<lparr>refinePrompt := [], llmBusy := False\<rparr>"
  by (simp add: handleRefine_def Let_def api_Inr)

lemma handleRefine_failure:
  "projectId w = Some pid \<Longrightarrow> pid \<noteq> [] \<Longrightarrow> selectedSection w = Some sel \<Longrightarrow>
     sent (handleRefine (Inl err) reloaded w) =
       sent w @ [Post_refine pid (sec_id sel) (refinePrompt w) (content sel) True (6 / 10) 800]"
  by (simp add: handleRefine_def Let_def api_Inl)

lemma messageOr_Some: "messageOr (Some m) = m"
  by (simp add: messageOr_def)

text \<open>The sample session is the one reached by starting from its stored record and
  running the mount effects of \<^verbatim>\<open>AuthProvider\<close>.\<close>

lemma sampleSession_reached: "mountAuthProvider (initAuth (Some (Json sampleAuth))) = sampleSession"
  by (simp add: mountAuthProvider_def registerInterceptor_def authHeaderEffect_def initAuth_def
        setAuthHeader_def sampleAuth_def sampleSession_def)

lemma mountAuthProvider_intercepting: "intercepting (mountAuthProvider s)"
  by (simp add: mountAuthProvider_def registerInterceptor_def)

text \<open>The operations that go through \<^verbatim>\<open>api\<close> inherit the invalidation: with the
  interceptor registered, a 401 answer to their own request leaves the Credential all-null
  and the storage item removed.\<close>

lemma login_401:
  "intercepting s \<Longrightarrow> status err = Some 401 \<Longrightarrow>
     fst (login email password (Inl err) s) = Inl err \<and>
     authState (snd (login email password (Inl err) s)) = nullAuth \<and>
     storage (snd (login email password (Inl err) s)) = None"
  by (simp add: login_def api_Inl)

lemma fetchProjects_401:
  "intercepting w \<Longrightarrow> status err = Some 401 \<Longrightarrow>
     authState (fetchProjects (Inl err) w) = nullAuth \<and> storage (fetchProjects (Inl err) w) = None"
  by (simp add: fetchProjects_def api_Inl)

lemma handleGenerate_401:
  "intercepting w \<Longrightarrow> status err = Some 401 \<Longrightarrow> generator_form.projectId (generator w) \<noteq> [] \<Longrightarrow>
     authState (handleGenerate (Inl err) reloaded w) = nullAuth \<and>
     storage (handleGenerate (Inl err) reloaded w) = None"
  by (simp add: handleGenerate_def api_Inl Let_def)

lemma fetchSections_401:
  "intercepting w \<Longrightarrow> status err = Some 401 \<Longrightarrow> projectId w = Some pid \<Longrightarrow> pid \<noteq> [] \<Longrightarrow>
     authState (fetchSections (Inl err) w) = nullAuth \<and> storage (fetchSections (Inl err) w) = None"
  by (simp add: fetchSections_def api_Inl)

lemma handleSectionUpdate_401:
  "intercepting w \<Longrightarrow> status err = Some 401 \<Longrightarrow> projectId w = Some pid \<Longrightarrow> pid \<noteq> [] \<Longrightarrow>
     authState (handleSectionUpdate sec (Inl err) reloaded w) = nullAuth \<and>
     storage (handleSectionUpdate sec (Inl err) reloaded w) = None"
  by (simp add: handleSectionUpdate_def api_Inl)

lemma handleRefine_401:
  "intercepting w \<Longrightarrow> status err = Some 401 \<Longrightarrow> projectId w = Some pid \<Longrightarrow> pid \<noteq> [] \<Longrightarrow>
   selectedSection w = Some sel \<Longrightarrow>
     authState (handleRefine (Inl err) reloaded w) = nullAuth \<and>
     storage (handleRefine (Inl err) reloaded w) = None"
  by (simp add: handleRefine_def api_Inl)

section \<open>Authorization failure (C1)\<close>




section \<open>Pairing of access token and identity (C2)\<close>

text \<open>
  C2. The pairing of access token and identity (both present or both absent, the refresh
  token free) holds after logout and after a 401 invalidation, from every state, and the
  record these leave in storage is paired as well. After initialization it holds whenever
  the stored record, if it parses, is paired; the initializer takes a parsed record as it
  is. A successful login stores the identity and, unchecked, the access token of the answer:
  the pairing holds after it exactly when the answer carries an access token, and the
  stored record is the new Credential. For a non-empty token the authorization header is
  then the one value \<^verbatim>\<open>Bearer <token>\<close>, which the header effect leaves as it is.
\<close>

theorem pairing_preserved:
  "(storedPaired st \<longrightarrow>
      paired (authState (initAuth st)) \<and> storedPaired (storage (initAuth st))) \<and>
   accessToken (authState (snd (login email password (Inr data) s))) = access_token data \<and>
   userEmail (authState (snd (login email password (Inr data) s))) = Some email \<and>
   paired (authState (snd (login email password (Inr data) s))) = (access_token data \<noteq> None) \<and>
   storage (snd (login email password (Inr data) s))
     = Some (Json (authState (snd (login email password (Inr data) s)))) \<and>
   (access_token data = Some tok \<and> tok \<noteq> [] \<longrightarrow>
      authHeader (snd (login email password (Inr data) s)) = Some (''Bearer '' @ tok) \<and>
      authHeaderEffect (snd (login email password (Inr data) s))
        = snd (login email password (Inr data) s)) \<and>
   paired (authState (logout s)) \<and> storedPaired (storage (logout s)) \<and>
   (intercepting s \<and> status err = Some 401 \<longrightarrow>
      paired (authState (snd (api req (Inl err :: api_error + 'r) s))) \<and>
      storedPaired (storage (snd (api req (Inl err :: api_error + 'r) s))))"
proof -
  have init: "storedPaired st \<longrightarrow>
      paired (authState (initAuth st)) \<and> storedPaired (storage (initAuth st))"
    by (simp add: storedPaired_def initAuth_def Let_def setAuthHeader_fields paired_nullAuth
             split: option.splits stored.splits)
  have lg: "accessToken (authState (snd (login email password (Inr data) s)))
        = access_token data \<and>
      userEmail (authState (snd (login email password (Inr data) s))) = Some email \<and>
      paired (authState (snd (login email password (Inr data) s)))
        = (access_token data \<noteq> None) \<and>
      storage (snd (login email password (Inr data) s))
        = Some (Json (authState (snd (login email password (Inr data) s))))"
    by (simp add: login_success persist_def setAuthHeader_fields paired_def)
  have hdr: "access_token data = Some tok \<and> tok \<noteq> [] \<longrightarrow>
      authHeader (snd (login email password (Inr data) s)) = Some (''Bearer '' @ tok) \<and>
      authHeaderEffect (snd (login email password (Inr data) s))
        = snd (login email password (Inr data) s)"
    by (simp add: login_success persist_def setAuthHeader_def authHeaderEffect_def)
  have lo: "paired (authState (logout s)) \<and> storedPaired (storage (logout s))"
    by (simp add: logout_def persist_def setAuthHeader_def nullAuth_def paired_def
          storedPaired_def)
  have iv: "intercepting s \<and> status err = Some 401 \<longrightarrow>
      paired (authState (snd (api req (Inl err :: api_error + 'r) s))) \<and>
      storedPaired (storage (snd (api req (Inl err :: api_error + 'r) s)))"
    by (simp add: api_Inl paired_nullAuth storedPaired_def)
  from init lg hdr lo iv show ?thesis by blast
qed

theorem pairing_preserved_witness:
  "storedPaired (Some (Json sampleAuth)) \<and>
   paired (authState (initAuth (Some (Json sampleAuth)))) \<and>
   access_token sampleLogin = Some ''tok2'' \<and> ''tok2'' \<noteq> [] \<and>
   paired (authState (snd (login ''ann@example.org'' ''pw'' (Inr sampleLogin) sampleSession))) \<and>
   authHeader (snd (login ''ann@example.org'' ''pw'' (Inr sampleLogin) sampleSession))
     = Some ''Bearer tok2'' \<and>
   intercepting sampleSession \<and> status unauthorized = Some 401 \<and>
   paired (authState (snd (api (Get_projects 50) (Inl unauthorized :: api_error + unit)
                             sampleSession)))"
proof -
  have h1: "storedPaired (Some (Json sampleAuth))"
    by (simp add: storedPaired_def paired_def sampleAuth_def)
  have h2: "access_token sampleLogin = Some ''tok2'' \<and> ''tok2'' \<noteq> []"
    by (simp add: sampleLogin_def)
  have h3: "intercepting sampleSession \<and> status unauthorized = Some 401"
    by (simp add: unauthorized_def sampleSession_def)
  from pairing_preserved [where 'r = unit, of "Some (Json sampleAuth)" "''ann@example.org''"
      "''pw''" sampleLogin sampleSession "''tok2''" unauthorized "Get_projects 50"] h1 h2 h3
  show ?thesis by simp
qed

text \<open>A stored record with a token and no identity is taken as the Credential; a login
  answered without an access token leaves an identity without token, in the Credential and
  in storage; a login answered with an empty token leaves no authorization header.\<close>

theorem pairing_counterexample:
  "\<not> paired (authState (initAuth (Some (Json \<lparr>accessToken = Some ''tok'', refreshToken = None,
                                                userEmail = None\<rparr>)))) \<and>
   \<not> paired (authState (snd (login ''ann@example.org'' ''pw''
                               (Inr \<lparr>access_token = None, refresh_token = None\<rparr>)
                               sampleSession))) \<and>
   \<not> storedPaired (storage (snd (login ''ann@example.org'' ''pw''
                                   (Inr \<lparr>access_token = None, refresh_token = None\<rparr>)
                                   sampleSession))) \<and>
   authHeader (snd (login ''ann@example.org'' ''pw''
                      (Inr \<lparr>access_token = Some [], refresh_token = None\<rparr>) sampleSession)) = None"
  by (simp add: initAuth_def setAuthHeader_def paired_def storedPaired_def login_success
        persist_def)

section \<open>Logout (C5, C6)\<close>

text \<open>
  C5. \<^verbatim>\<open>logout()\<close> sets the Credential to all-null, clears the authorization header and
  overwrites the storage item with the all-null record: the item stays under the key, and
  an initialization from it starts with the all-null Credential and no header.
\<close>

theorem logout_overwrites_record:
  "authState (logout s) = nullAuth \<and> authHeader (logout s) = None \<and>
   storage (logout s) = Some (Json nullAuth) \<and>
   authState (initAuth (storage (logout s))) = nullAuth \<and>
   authHeader (initAuth (storage (logout s))) = None"
  by (simp add: logout_def persist_def setAuthHeader_def nullAuth_def initAuth_def)

text \<open>After a logout of the logged-in sample session the storage still holds an item.\<close>

theorem logout_keeps_record_counterexample:
  "\<not> (storage (logout sampleSession) = None)"
  by (simp add: logout_def persist_def setAuthHeader_def nullAuth_def)

text \<open>
  C6. \<^verbatim>\<open>logout\<close> is idempotent: from every state, a second logout leaves Credential,
  header, storage and everything else as the first one did, the Credential being all-null.
  \<^verbatim>\<open>logout\<close> has no failing branch.
\<close>

theorem logout_idempotent:
  "logout (logout s) = logout s \<and> authState (logout (logout s)) = nullAuth \<and>
   authHeader (logout (logout s)) = None \<and> storage (logout (logout s)) = storage (logout s)"
  by (simp add: logout_def persist_def setAuthHeader_def nullAuth_def)

section \<open>Selection across a refresh of the section list (C3, C10)\<close>

text \<open>
  C3. On a refresh of the section list the selection is kept by id: an empty list leaves
  nothing selected; if the id of the selected section occurs in the new list, the selection
  becomes the entry of the new list with that id (the first one found); if it does not
  occur, the selection becomes the first entry of the new list. With \<open>[a, b]\<close> reloaded
  while a section \<open>c\<close> of another id is selected, the selection is \<open>a\<close>.
\<close>

theorem selection_retained_by_id:
  "reconcileSelection [] prev = None \<and>
   (secs \<noteq> [] \<and> sec_id p \<in> sec_id ` set secs \<longrightarrow>
      (\<exists>u. reconcileSelection secs (Some p) = Some u \<and> u \<in> set secs \<and>
           sec_id u = sec_id p \<and> find (\<lambda>x. sec_id x = sec_id p) secs = Some u)) \<and>
   (secs \<noteq> [] \<and> sec_id p \<notin> sec_id ` set secs \<longrightarrow>
      reconcileSelection secs (Some p) = Some (hd secs)) \<and>
   (sec_id c \<noteq> sec_id a \<and> sec_id c \<noteq> sec_id b \<longrightarrow>
      reconcileSelection [a, b] (Some c) = Some a)"
proof -
  have e: "reconcileSelection [] prev = None"
    by (simp add: reconcileSelection_def)
  have present: "secs \<noteq> [] \<and> sec_id p \<in> sec_id ` set secs \<longrightarrow>
      (\<exists>u. reconcileSelection secs (Some p) = Some u \<and> u \<in> set secs \<and>
           sec_id u = sec_id p \<and> find (\<lambda>x. sec_id x = sec_id p) secs = Some u)"
  proof
    assume h: "secs \<noteq> [] \<and> sec_id p \<in> sec_id ` set secs"
    then obtain x where x: "x \<in> set secs" "sec_id x = sec_id p" by auto
    then have "find (\<lambda>x. sec_id x = sec_id p) secs \<noteq> None"
      by (auto simp: find_None_iff)
    then obtain u where u: "find (\<lambda>x. sec_id x = sec_id p) secs = Some u" by auto
    then have "u \<in> set secs \<and> sec_id u = sec_id p"
      by (auto simp: find_Some_iff)
    with u h show "\<exists>u. reconcileSelection secs (Some p) = Some u \<and> u \<in> set secs \<and>
        sec_id u = sec_id p \<and> find (\<lambda>x. sec_id x = sec_id p) secs = Some u"
      by (simp add: reconcileSelection_def)
  qed
  have absent: "secs \<noteq> [] \<and> sec_id p \<notin> sec_id ` set secs \<longrightarrow>
      reconcileSelection secs (Some p) = Some (hd secs)"
  proof
    assume h: "secs \<noteq> [] \<and> sec_id p \<notin> sec_id ` set secs"
    then have "\<forall>x \<in> set secs. sec_id x \<noteq> sec_id p"
      by (metis imageI)
    then have "find (\<lambda>x. sec_id x = sec_id p) secs = None"
      by (simp add: find_None_iff)
    with h show "reconcileSelection secs (Some p) = Some (hd secs)"
      by (simp add: reconcileSelection_def hd_conv_nth)
  qed
  have example: "sec_id c \<noteq> sec_id a \<and> sec_id c \<noteq> sec_id b \<longrightarrow>
      reconcileSelection [a, b] (Some c) = Some a"
    by (auto simp: reconcileSelection_def)
  from e present absent example show ?thesis by blast
qed

theorem selection_retained_by_id_witness:
  "[sampleSection ''a'' ''A'' [], sampleSection ''b'' ''B'' ''fresh''] \<noteq> [] \<and>
   sec_id (sampleSection ''b'' ''B'' ''stale'')
     \<in> sec_id ` set [sampleSection ''a'' ''A'' [], sampleSection ''b'' ''B'' ''fresh''] \<and>
   reconcileSelection [sampleSection ''a'' ''A'' [], sampleSection ''b'' ''B'' ''fresh'']
     (Some (sampleSection ''b'' ''B'' ''stale'')) = Some (sampleSection ''b'' ''B'' ''fresh'') \<and>
   sec_id (sampleSection ''c'' ''C'' [])
     \<notin> sec_id ` set [sampleSection ''a'' ''A'' [], sampleSection ''b'' ''B'' ''fresh''] \<and>
   reconcileSelection [sampleSection ''a'' ''A'' [], sampleSection ''b'' ''B'' ''fresh'']
     (Some (sampleSection ''c'' ''C'' [])) = Some (sampleSection ''a'' ''A'' [])"
proof -
  let ?secs = "[sampleSection ''a'' ''A'' [], sampleSection ''b'' ''B'' ''fresh'']"
  have h1: "?secs \<noteq> [] \<and> sec_id (sampleSection ''b'' ''B'' ''stale'') \<in> sec_id ` set ?secs"
    by (simp add: sampleSection_def)
  have h2: "?secs \<noteq> [] \<and> sec_id (sampleSection ''c'' ''C'' []) \<notin> sec_id ` set ?secs"
    by (simp add: sampleSection_def)
  have h3: "sec_id (sampleSection ''c'' ''C'' []) \<noteq> sec_id (sampleSection ''a'' ''A'' []) \<and>
      sec_id (sampleSection ''c'' ''C'' []) \<noteq> sec_id (sampleSection ''b'' ''B'' ''fresh'')"
    by (simp add: sampleSection_def)
  note t = selection_retained_by_id [of None ?secs "sampleSection ''b'' ''B'' ''stale''"
      "sampleSection ''c'' ''C'' []" "sampleSection ''a'' ''A'' []"
      "sampleSection ''b'' ''B'' ''fresh''"]
  from t h1 obtain u where
    u: "reconcileSelection ?secs (Some (sampleSection ''b'' ''B'' ''stale'')) = Some u"
       "find (\<lambda>x. sec_id x = sec_id (sampleSection ''b'' ''B'' ''stale'')) ?secs = Some u"
    by blast
  from u(2) have "u = sampleSection ''b'' ''B'' ''fresh''"
    by (simp add: sampleSection_def)
  with u(1) have kept: "reconcileSelection ?secs (Some (sampleSection ''b'' ''B'' ''stale''))
      = Some (sampleSection ''b'' ''B'' ''fresh'')"
    by simp
  from t h3 have fallback: "reconcileSelection ?secs (Some (sampleSection ''c'' ''C'' []))
      = Some (sampleSection ''a'' ''A'' [])"
    by blast
  from h1 h2 kept fallback show ?thesis by blast
qed

text \<open>
  C10. After the reconciliation that follows an update of the section list, the Local Edit
  Buffer is null exactly when the list is empty, and for a non-empty list it is an entry
  of that list, whatever was selected before.
\<close>

theorem buffer_null_iff_list_empty:
  "(reconcileSelection secs prev = None) = (secs = []) \<and>
   (secs \<noteq> [] \<longrightarrow> (\<exists>s \<in> set secs. reconcileSelection secs prev = Some s)) \<and>
   (selectedSection (setSections secs w) = None) = (secs = []) \<and>
   (secs \<noteq> [] \<longrightarrow> (\<exists>s \<in> set secs. selectedSection (setSections secs w) = Some s))"
proof -
  have mem: "secs \<noteq> [] \<longrightarrow> (\<exists>s \<in> set secs. reconcileSelection secs prev = Some s)" for prev
  proof
    assume ne: "secs \<noteq> []"
    then have first: "secs ! 0 \<in> set secs" by simp
    show "\<exists>s \<in> set secs. reconcileSelection secs prev = Some s"
    proof (cases prev)
      case None
      with ne first show ?thesis by (simp add: reconcileSelection_def)
    next
      case (Some p)
      show ?thesis
      proof (cases "find (\<lambda>x. sec_id x = sec_id p) secs")
        case None
        with Some ne first show ?thesis by (simp add: reconcileSelection_def)
      next
        case (Some u)
        then have "u \<in> set secs" by (auto simp: find_Some_iff)
        with Some \<open>prev = Some p\<close> ne show ?thesis by (simp add: reconcileSelection_def)
      qed
    qed
  qed
  have iff: "(reconcileSelection secs prev = None) = (secs = [])" for prev
  proof
    assume "reconcileSelection secs prev = None"
    then show "secs = []"
      by (auto simp: reconcileSelection_def split: if_splits option.splits)
  next
    assume "secs = []"
    then show "reconcileSelection secs prev = None" by (simp add: reconcileSelection_def)
  qed
  have page: "(selectedSection (setSections secs w) = None) = (secs = [])"
    by (simp add: setSections_def iff)
  have page_mem: "secs \<noteq> [] \<longrightarrow> (\<exists>s \<in> set secs. selectedSection (setSections secs w) = Some s)"
    using mem [of "selectedSection w"] by (simp add: setSections_def)
  from mem [of prev] iff [of prev] page page_mem show ?thesis by simp
qed

theorem buffer_null_iff_list_empty_witness:
  "[sampleSection ''b'' ''B'' ''fresh''] \<noteq> [] \<and>
   selectedSection (setSections [sampleSection ''b'' ''B'' ''fresh''] samplePage)
     = Some (sampleSection ''b'' ''B'' ''fresh'') \<and>
   selectedSection (setSections [] samplePage) = None"
proof -
  have ne: "[sampleSection ''b'' ''B'' ''fresh''] \<noteq> []" by simp
  from buffer_null_iff_list_empty [of "[sampleSection ''b'' ''B'' ''fresh'']" None samplePage] ne
  have "\<exists>s \<in> set [sampleSection ''b'' ''B'' ''fresh''].
      selectedSection (setSections [sampleSection ''b'' ''B'' ''fresh''] samplePage) = Some s"
    by blast
  then have one: "selectedSection (setSections [sampleSection ''b'' ''B'' ''fresh''] samplePage)
      = Some (sampleSection ''b'' ''B'' ''fresh'')"
    by simp
  from buffer_null_iff_list_empty [of "[]" None samplePage]
  have none: "selectedSection (setSections [] samplePage) = None"
    by simp
  from ne one none show ?thesis by blast
qed

section \<open>Submission of the generation form (C4)\<close>




section \<open>Saving and refining a section (C9, C7)\<close>

text \<open>
  C9. \<^verbatim>\<open>handleSectionUpdate\<close> sends, as its first request, a PUT addressed by project
  and section id whose body holds the title and the content of the section it was given
  and nothing else. Two sections that agree on id, title and content give the same run of
  the handler; so \<open>idx\<close>, \<open>revision_count\<close>, \<open>initial_generated\<close> and the remaining
  fields have no influence on what is sent.
\<close>

theorem update_sends_title_content:
  "(projectId w = Some pid \<and> pid \<noteq> [] \<longrightarrow>
      take (Suc (length (sent w))) (sent (handleSectionUpdate section updated reloaded w)) =
        sent w @ [Put_section pid (sec_id section) (title section) (content section)]) \<and>
   (sec_id other = sec_id section \<and> title other = title section \<and>
    content other = content section \<longrightarrow>
      handleSectionUpdate other updated reloaded w
        = handleSectionUpdate section updated reloaded w) \<and>
   handleSectionUpdate
     (section\<lparr>idx := i, revision_count := n, initial_generated := g, comment_count := k,
              project_id := q, Section.created_at := c, Section.updated_at := u\<rparr>)
     updated reloaded w = handleSectionUpdate section updated reloaded w"
proof -
  have first: "projectId w = Some pid \<and> pid \<noteq> [] \<longrightarrow>
      take (Suc (length (sent w))) (sent (handleSectionUpdate section updated reloaded w)) =
        sent w @ [Put_section pid (sec_id section) (title section) (content section)]"
    by (cases updated)
       (simp_all add: handleSectionUpdate_def Let_def api_Inl api_Inr sent_fetchSections)
  have same: "handleSectionUpdate x updated reloaded w = handleSectionUpdate y updated reloaded w"
    if "sec_id x = sec_id y" "title x = title y" "content x = content y" for x y
    using that by (simp add: handleSectionUpdate_def split: option.splits)
  from first same [of other "section"]
    same [of "section\<lparr>idx := i, revision_count := n, initial_generated := g,
                comment_count := k, project_id := q, Section.created_at := c,
                Section.updated_at := u\<rparr>" "section"]
  show ?thesis by simp
qed

theorem update_sends_title_content_witness:
  "projectId samplePage = Some ''p1'' \<and> ''p1'' \<noteq> [] \<and>
   take (Suc (length (sent samplePage)))
     (sent (handleSectionUpdate (sampleSection ''a'' ''A'' ''edited text'')
              (Inr ()) (Inr (Some [])) samplePage))
     = [Put_section ''p1'' ''a'' ''A'' ''edited text''] \<and>
   handleSectionUpdate ((sampleSection ''a'' ''A'' ''edited text'')\<lparr>idx := 7\<rparr>)
     (Inr ()) (Inr (Some [])) samplePage
     = handleSectionUpdate (sampleSection ''a'' ''A'' ''edited text'')
         (Inr ()) (Inr (Some [])) samplePage"
proof -
  let ?sec = "sampleSection ''a'' ''A'' ''edited text''"
  have h: "projectId samplePage = Some ''p1'' \<and> ''p1'' \<noteq> []"
    by (simp add: samplePage_def)
  have agree: "sec_id (?sec\<lparr>idx := 7\<rparr>) = sec_id ?sec \<and> title (?sec\<lparr>idx := 7\<rparr>) = title ?sec \<and>
      content (?sec\<lparr>idx := 7\<rparr>) = content ?sec"
    by simp
  note t = update_sends_title_content [of samplePage "''p1''" ?sec "Inr ()" "Inr (Some [])"
      "?sec\<lparr>idx := 7\<rparr>"]
  from t h have "take (Suc (length (sent samplePage)))
      (sent (handleSectionUpdate ?sec (Inr ()) (Inr (Some [])) samplePage))
      = sent samplePage @ [Put_section ''p1'' (sec_id ?sec) (title ?sec) (content ?sec)]"
    by blast
  then have put: "take (Suc (length (sent samplePage)))
      (sent (handleSectionUpdate ?sec (Inr ()) (Inr (Some [])) samplePage))
      = [Put_section ''p1'' ''a'' ''A'' ''edited text'']"
    by (simp add: samplePage_def sampleSection_def)
  from t agree have frame: "handleSectionUpdate (?sec\<lparr>idx := 7\<rparr>) (Inr ()) (Inr (Some [])) samplePage
      = handleSectionUpdate ?sec (Inr ()) (Inr (Some [])) samplePage"
    by blast
  from h put frame show ?thesis by blast
qed

text \<open>
  C7. With a project and a selected section, \<^verbatim>\<open>handleRefine\<close> sends as its first request
  the refinement of that section with \<open>prompt\<close> the content of the Local Edit Buffer and
  \<open>refine_instruction\<close> the refine input; what it sends does not depend on the section
  list. On success the refine input is cleared and the returned Section is put in the
  buffer, on which the reload of the list then acts: the buffer ends as the returned Section
  if the reload fails or if the first entry of the reloaded list with the returned id is
  the returned Section, and in general as what the reconciliation of C3 gives for the
  reloaded list with the returned Section as the selection.
\<close>

theorem refine_sends_buffer_content:
  "projectId w = Some pid \<Longrightarrow> pid \<noteq> [] \<Longrightarrow> selectedSection w = Some sel \<Longrightarrow>
     take (Suc (length (sent w))) (sent (handleRefine refined reloaded w)) =
       sent w @ [Post_refine pid (sec_id sel) (refinePrompt w) (content sel) True (6 / 10) 800] \<and>
     sent (handleRefine refined reloaded (w\<lparr>sections := others\<rparr>)) =
       sent (handleRefine refined reloaded w) \<and>
     refinePrompt (handleRefine (Inr data) reloaded w) = [] \<and>
     selectedSection (handleRefine (Inr data) reloaded w) =
       (case reloaded of
          Inl err \<Rightarrow> Some data
        | Inr items \<Rightarrow>
            reconcileSelection (case items of Some xs \<Rightarrow> xs | None \<Rightarrow> []) (Some data)) \<and>
     (find (\<lambda>x. sec_id x = sec_id data) fresh = Some data \<longrightarrow>
        selectedSection (handleRefine (Inr data) (Inr (Some fresh)) w) = Some data)"
proof -
  assume p: "projectId w = Some pid" "pid \<noteq> []" and sel: "selectedSection w = Some sel"
  let ?req = "Post_refine pid (sec_id sel) (refinePrompt w) (content sel) True (6 / 10) 800"
  have sent_all: "sent (handleRefine refined reloaded v) =
      sent w @ ?req # (case refined of Inl err \<Rightarrow> [] | Inr d \<Rightarrow> [Get_sections pid 100])"
    if "projectId v = Some pid" "selectedSection v = Some sel" "sent v = sent w"
       "refinePrompt v = refinePrompt w" for v
  proof (cases refined)
    case (Inl err)
    with that p show ?thesis by (simp add: handleRefine_failure)
  next
    case (Inr d)
    with that p show ?thesis by (simp add: handleRefine_success sent_fetchSections)
  qed
  have first: "take (Suc (length (sent w))) (sent (handleRefine refined reloaded w))
      = sent w @ [?req]"
    using sent_all [of w] p sel by simp
  have indep: "sent (handleRefine refined reloaded (w\<lparr>sections := others\<rparr>)) =
       sent (handleRefine refined reloaded w)"
    using sent_all [of w] sent_all [of "w\<lparr>sections := others\<rparr>"] p sel by simp
  have cleared: "refinePrompt (handleRefine (Inr data) reloaded w) = []"
    using p sel
    by (cases reloaded)
       (simp_all add: handleRefine_success)
  have buffer: "selectedSection (handleRefine (Inr data) r w) =
       (case r of
          Inl err \<Rightarrow> Some data
        | Inr items \<Rightarrow>
            reconcileSelection (case items of Some xs \<Rightarrow> xs | None \<Rightarrow> []) (Some data))" for r
    using p sel by (simp add: handleRefine_success fetchSections_selected split: sum.splits)
  have same: "find (\<lambda>x. sec_id x = sec_id data) fresh = Some data \<longrightarrow>
      selectedSection (handleRefine (Inr data) (Inr (Some fresh)) w) = Some data"
  proof
    assume f: "find (\<lambda>x. sec_id x = sec_id data) fresh = Some data"
    then have "fresh \<noteq> []" by auto
    with f have "reconcileSelection fresh (Some data) = Some data"
      by (simp add: reconcileSelection_def)
    then show "selectedSection (handleRefine (Inr data) (Inr (Some fresh)) w) = Some data"
      by (simp add: buffer)
  qed
  from first indep cleared buffer [of reloaded] same show ?thesis by simp
qed

theorem refine_sends_buffer_content_witness:
  "projectId samplePage = Some ''p1'' \<and> ''p1'' \<noteq> [] \<and>
   selectedSection samplePage = Some (sampleSection ''a'' ''A'' ''edited text'') \<and>
   sections samplePage = [sampleSection ''a'' ''A'' ''old text''] \<and>
   take (Suc (length (sent samplePage)))
     (sent (handleRefine (Inr (sampleSection ''a'' ''A'' ''short text''))
              (Inr (Some [sampleSection ''a'' ''A'' ''short text''])) samplePage))
     = [Post_refine ''p1'' ''a'' ''shorter'' ''edited text'' True (6 / 10) 800] \<and>
   refinePrompt (handleRefine (Inr (sampleSection ''a'' ''A'' ''short text''))
                   (Inr (Some [sampleSection ''a'' ''A'' ''short text''])) samplePage) = [] \<and>
   selectedSection (handleRefine (Inr (sampleSection ''a'' ''A'' ''short text''))
                      (Inr (Some [sampleSection ''a'' ''A'' ''short text''])) samplePage)
     = Some (sampleSection ''a'' ''A'' ''short text'')"
proof -
  let ?sel = "sampleSection ''a'' ''A'' ''edited text''"
  let ?data = "sampleSection ''a'' ''A'' ''short text''"
  have h1: "projectId samplePage = Some ''p1''"
    by (simp add: samplePage_def)
  have h2: "''p1'' \<noteq> []"
    by simp
  have h3: "selectedSection samplePage = Some ?sel"
    by (simp add: samplePage_def)
  have h4: "sections samplePage = [sampleSection ''a'' ''A'' ''old text'']"
    by (simp add: samplePage_def)
  note t = refine_sends_buffer_content [OF h1 h2 h3, of "Inr ?data" "Inr (Some [?data])" "[]"
      ?data "[?data]"]
  from t have req: "take (Suc (length (sent samplePage)))
      (sent (handleRefine (Inr ?data) (Inr (Some [?data])) samplePage))
      = [Post_refine ''p1'' ''a'' ''shorter'' ''edited text'' True (6 / 10) 800]"
    by (simp add: samplePage_def sampleSection_def)
  from t have cleared: "refinePrompt (handleRefine (Inr ?data) (Inr (Some [?data])) samplePage) = []"
    by blast
  have found: "find (\<lambda>x. sec_id x = sec_id ?data) [?data] = Some ?data"
    by simp
  from t found have buffer:
    "selectedSection (handleRefine (Inr ?data) (Inr (Some [?data])) samplePage) = Some ?data"
    by blast
  from h1 h2 h3 h4 req cleared buffer show ?thesis by blast
qed

text \<open>The reload answers with a list whose entry for the refined section is not the
  returned Section, or with an empty list: the buffer ends as the entry of the list, or
  empty.\<close>

theorem refine_buffer_reconciled_counterexample:
  "selectedSection (handleRefine (Inr (sampleSection ''a'' ''A'' ''short text''))
                      (Inr (Some [sampleSection ''a'' ''A'' ''other text''])) samplePage)
     \<noteq> Some (sampleSection ''a'' ''A'' ''short text'') \<and>
   selectedSection (handleRefine (Inr (sampleSection ''a'' ''A'' ''short text''))
                      (Inr (Some [])) samplePage)
     \<noteq> Some (sampleSection ''a'' ''A'' ''short text'')"
proof -
  have page: "projectId samplePage = Some ''p1''"
      "selectedSection samplePage = Some (sampleSection ''a'' ''A'' ''edited text'')"
    by (simp_all add: samplePage_def)
  have "selectedSection (handleRefine (Inr (sampleSection ''a'' ''A'' ''short text''))
                           (Inr (Some [sampleSection ''a'' ''A'' ''other text''])) samplePage)
      = Some (sampleSection ''a'' ''A'' ''other text'')"
    using page
    by (simp add: handleRefine_success fetchSections_selected reconcileSelection_def
          sampleSection_def)
  moreover have "sampleSection ''a'' ''A'' ''other text'' \<noteq> sampleSection ''a'' ''A'' ''short text''"
    by (simp add: sampleSection_def)
  moreover have "selectedSection (handleRefine (Inr (sampleSection ''a'' ''A'' ''short text''))
                           (Inr (Some [])) samplePage) = None"
    using page
    by (simp add: handleRefine_success fetchSections_selected reconcileSelection_def)
  ultimately show ?thesis by simp
qed

section \<open>Failed export (C8)\<close>

text \<open>
  C8. When the export endpoint answers with a status outside 200 to 299, \<^verbatim>\<open>handleExport\<close>
  creates no object URL and triggers no download (the recorded effects are unchanged), the
  error slot holds the non-empty message \<^verbatim>\<open>Export failed\<close>, and \<open>exporting\<close> is false at
  the end.
\<close>

theorem export_failure_no_save:
  "projectId w = Some pid \<Longrightarrow> pid \<noteq> [] \<Longrightarrow> \<not> ok st \<Longrightarrow>
     effects (handleExport (Fetch_response st body) w) = effects w \<and>
     error (handleExport (Fetch_response st body) w) = Some ''Export failed'' \<and>
     truthy (error (handleExport (Fetch_response st body) w)) \<and>
     exporting (handleExport (Fetch_response st body) w) = False \<and>
     sent (handleExport (Fetch_response st body) w) =
       sent w @ [Fetch_export pid (exportFormat w)
                   (if truthy (authHeader w) then authHeader w else None)]"
  by (simp add: handleExport_def Let_def messageOr_Some truthy_def)

theorem export_failure_no_save_witness:
  "projectId samplePage = Some ''p1'' \<and> ''p1'' \<noteq> [] \<and> \<not> ok 500 \<and>
   effects (handleExport (Fetch_response 500 (Blob ''bytes'')) samplePage) = [] \<and>
   error (handleExport (Fetch_response 500 (Blob ''bytes'')) samplePage)
     = Some ''Export failed'' \<and>
   exporting (handleExport (Fetch_response 500 (Blob ''bytes'')) samplePage) = False"
proof -
  have h1: "projectId samplePage = Some ''p1''"
    by (simp add: samplePage_def)
  have h2: "''p1'' \<noteq> []"
    by simp
  have h3: "\<not> ok 500"
    by (simp add: ok_def)
  have e: "effects samplePage = []"
    by (simp add: samplePage_def)
  from export_failure_no_save [OF h1 h2 h3, of "Blob ''bytes''"] h1 h2 h3 e
  show ?thesis by simp
qed

end
